theory Spec2Isabelle
  imports Main
begin

section \<open>RealtimeObject: the facade of \<^verbatim>\<open>pendulum_utils/RealtimeObject.hpp\<close>\<close>

text \<open>
  The header declares the class template \<^verbatim>\<open>RealtimeObject<T, Options>\<close>. Everything it
  does is one of three things: it computes types from the policy \<^verbatim>\<open>Options\<close>
  (\<^verbatim>\<open>std::conditional_t\<close>, \<^verbatim>\<open>std::enable_if_t\<close>), it forwards a call to the member
  \<^verbatim>\<open>mImpl\<close> (under an exception specification), and it declares the special members of
  the nested guard \<^verbatim>\<open>ScopedAccess\<close>. The classes behind \<^verbatim>\<open>mImpl\<close>
  (\<^verbatim>\<open>detail::RealtimeMutatable\<close>, \<^verbatim>\<open>detail::NonRealtimeMutatable\<close>) live in
  \<^verbatim>\<open>pendulum_utils/detail/RealtimeObject.tcc\<close>, which the header includes.
\<close>

subsection \<open>The two selectors\<close>

datatype RealtimeObjectOptions = nonRealtimeMutatable | realtimeMutatable

datatype ThreadType = realtime | nonRealtime

subsection \<open>Types computed from the policy\<close>

text \<open>
  A type \<^verbatim>\<open>T\<close> is its name (a value of an arbitrary HOL type \<open>'t\<close>) together with
  its own const qualification: \<^verbatim>\<open>int\<close> and \<^verbatim>\<open>const int\<close> are both types a
  \<^verbatim>\<open>RealtimeObject\<close> can be instantiated with. \<^verbatim>\<open>const T\<close> qualifies the type; on a
  type that is const already it changes nothing.
\<close>

datatype 't cpp_type = CppType (is_const: bool) (name_of: 't)

definition add_const :: "'t cpp_type \<Rightarrow> 't cpp_type" where
  "add_const T = CppType True (name_of T)"

definition conditional_t :: "bool \<Rightarrow> 'a \<Rightarrow> 'a \<Rightarrow> 'a" where
  "conditional_t b x y = (if b then x else y)"

definition RealtimeAcquireReturnType ::
    "RealtimeObjectOptions \<Rightarrow> 't cpp_type \<Rightarrow> 't cpp_type" where
  "RealtimeAcquireReturnType Options T =
     conditional_t (Options = nonRealtimeMutatable) (add_const T) T"

definition NonRealtimeAcquireReturnType ::
    "RealtimeObjectOptions \<Rightarrow> 't cpp_type \<Rightarrow> 't cpp_type" where
  "NonRealtimeAcquireReturnType Options T =
     conditional_t (Options = realtimeMutatable) (add_const T) T"

text \<open>
  \<^verbatim>\<open>realtimeAcquire\<close> returns \<^verbatim>\<open>RealtimeAcquireReturnType &\<close> and
  \<^verbatim>\<open>nonRealtimeAcquire\<close> returns \<^verbatim>\<open>NonRealtimeAcquireReturnType &\<close>: the type a
  caller's reference refers to, by the side that acquires.
\<close>

fun acquire_referent ::
    "RealtimeObjectOptions \<Rightarrow> ThreadType \<Rightarrow> 't cpp_type \<Rightarrow> 't cpp_type" where
  "acquire_referent Options realtime T = RealtimeAcquireReturnType Options T"
| "acquire_referent Options nonRealtime T = NonRealtimeAcquireReturnType Options T"

text \<open>
  An lvalue reference to a const-qualified type admits no assignment and no non-const
  member call, whether the qualifier was added by the alias or came with \<^verbatim>\<open>T\<close>.
\<close>

definition permits_mutation :: "'t cpp_type \<Rightarrow> bool" where
  "permits_mutation T = (\<not> is_const T)"

subsection \<open>The replace members and their \<^verbatim>\<open>enable_if_t\<close> condition\<close>

text \<open>
  \<^verbatim>\<open>std::enable_if_t<c, R>\<close> names the type \<^verbatim>\<open>R\<close> when \<^verbatim>\<open>c\<close> holds and is a
  substitution failure otherwise, which removes the member template from the candidates
  of a call.
\<close>

definition enable_if_t :: "bool \<Rightarrow> 'a \<Rightarrow> 'a option" where
  "enable_if_t c R = (if c then Some R else None)"

text \<open>
  Both replace templates start with \<^verbatim>\<open>template<RealtimeObjectOptions O = Options, ...>\<close>:
  a call may name \<^verbatim>\<open>O\<close> itself (\<open>Some\<close>) or leave it to the default (\<open>None\<close>).
\<close>

fun template_argument :: "'a \<Rightarrow> 'a option \<Rightarrow> 'a" where
  "template_argument dflt None = dflt"
| "template_argument dflt (Some a) = a"

datatype void_type = Void

definition realtimeReplace_return_type ::
    "RealtimeObjectOptions \<Rightarrow> RealtimeObjectOptions option \<Rightarrow> void_type option" where
  "realtimeReplace_return_type Options explicit_O =
     enable_if_t (template_argument Options explicit_O = realtimeMutatable) Void"

definition nonRealtimeReplace_return_type ::
    "RealtimeObjectOptions \<Rightarrow> RealtimeObjectOptions option \<Rightarrow> void_type option" where
  "nonRealtimeReplace_return_type Options explicit_O =
     enable_if_t (template_argument Options explicit_O = nonRealtimeMutatable) Void"

text \<open>The declared return type of the replace member of a side, if its condition lets it exist.\<close>

fun replace_return_type ::
    "RealtimeObjectOptions \<Rightarrow> ThreadType \<Rightarrow> RealtimeObjectOptions option \<Rightarrow> void_type option" where
  "replace_return_type Options realtime explicit_O = realtimeReplace_return_type Options explicit_O"
| "replace_return_type Options nonRealtime explicit_O =
     nonRealtimeReplace_return_type Options explicit_O"

text \<open>The private alias \<^verbatim>\<open>Impl\<close>, the type of \<^verbatim>\<open>mImpl\<close>.\<close>

datatype detail_class = RealtimeMutatable | NonRealtimeMutatable

definition Impl :: "RealtimeObjectOptions \<Rightarrow> detail_class" where
  "Impl Options =
     conditional_t (Options = realtimeMutatable) RealtimeMutatable NonRealtimeMutatable"

text \<open>
  What the compiler makes of a call \<^verbatim>\<open>obj.realtimeReplace(args...)\<close> or
  \<^verbatim>\<open>obj.realtimeReplace<O>(args...)\<close>: with the condition false there is no candidate;
  with the condition true the body \<^verbatim>\<open>mImpl.realtimeReplace(...)\<close> is instantiated and needs
  that member in \<^verbatim>\<open>Impl\<close>. Only a well-formed call is part of a program that runs.
  The detail classes are declared in \<^verbatim>\<open>detail/RealtimeObject.tcc\<close>; which of them
  declares a replace member for which side is the parameter \<open>declares\<close>.
\<close>

datatype translation = WellFormed | NoMatchingFunction | NoMemberInImpl

definition realtimeReplace_call ::
    "(detail_class \<Rightarrow> ThreadType \<Rightarrow> bool) \<Rightarrow> RealtimeObjectOptions
       \<Rightarrow> RealtimeObjectOptions option \<Rightarrow> translation" where
  "realtimeReplace_call declares Options explicit_O =
     (case realtimeReplace_return_type Options explicit_O of
        None \<Rightarrow> NoMatchingFunction
      | Some Void \<Rightarrow>
          if declares (Impl Options) realtime then WellFormed else NoMemberInImpl)"

definition nonRealtimeReplace_call ::
    "(detail_class \<Rightarrow> ThreadType \<Rightarrow> bool) \<Rightarrow> RealtimeObjectOptions
       \<Rightarrow> RealtimeObjectOptions option \<Rightarrow> translation" where
  "nonRealtimeReplace_call declares Options explicit_O =
     (case nonRealtimeReplace_return_type Options explicit_O of
        None \<Rightarrow> NoMatchingFunction
      | Some Void \<Rightarrow>
          if declares (Impl Options) nonRealtime then WellFormed else NoMemberInImpl)"

text \<open>
  Modelled from the spec: which of the two detail classes declares a replace member for
  which side; the classes are declared in \<^verbatim>\<open>detail/RealtimeObject.tcc\<close>. The spec
  (4.2, 4.3): replace is "only exposed when this side is the designated mutator"; "under
  RealtimeMutatable, this side owns replace ...; under NonRealtimeMutatable, this side has
  no replace", and on the other side replace exists "only when this side is the mutator".
\<close>

fun declares_replace :: "detail_class \<Rightarrow> ThreadType \<Rightarrow> bool" where
  "declares_replace RealtimeMutatable realtime = True"
| "declares_replace RealtimeMutatable nonRealtime = False"
| "declares_replace NonRealtimeMutatable realtime = False"
| "declares_replace NonRealtimeMutatable nonRealtime = True"

subsection \<open>Forwarding to \<^verbatim>\<open>mImpl\<close> under an exception specification\<close>

text \<open>
  A call returns, throws, or ends the program: an exception that reaches the boundary of
  a \<^verbatim>\<open>noexcept\<close> function calls \<^verbatim>\<open>std::terminate\<close> and never reaches the caller.
  Every operation takes the state of the object and returns it with the outcome.
\<close>

datatype ('e, 'a) outcome = Returns 'a | Throws 'e | Terminates

fun noexcept :: "('e, 'a) outcome \<times> 's \<Rightarrow> ('e, 'a) outcome \<times> 's" where
  "noexcept (Throws e, s) = (Terminates, s)"
| "noexcept (r, s) = (r, s)"

text \<open>
  The member of \<^verbatim>\<open>mImpl\<close> a facade method forwards to is its first argument: the
  facade is the same for every \<^verbatim>\<open>Impl\<close>.
\<close>

definition realtimeAcquire ::
    "('s \<Rightarrow> ('e, 'r) outcome \<times> 's) \<Rightarrow> 's \<Rightarrow> ('e, 'r) outcome \<times> 's" where
  "realtimeAcquire mImpl_realtimeAcquire s = noexcept (mImpl_realtimeAcquire s)"

definition realtimeRelease ::
    "('s \<Rightarrow> ('e, unit) outcome \<times> 's) \<Rightarrow> 's \<Rightarrow> ('e, unit) outcome \<times> 's" where
  "realtimeRelease mImpl_realtimeRelease s = noexcept (mImpl_realtimeRelease s)"

definition realtimeReplace ::
    "('args \<Rightarrow> 's \<Rightarrow> ('e, unit) outcome \<times> 's) \<Rightarrow> 'args \<Rightarrow> 's \<Rightarrow> ('e, unit) outcome \<times> 's" where
  "realtimeReplace mImpl_realtimeReplace args s = noexcept (mImpl_realtimeReplace args s)"

definition nonRealtimeAcquire ::
    "('s \<Rightarrow> ('e, 'r) outcome \<times> 's) \<Rightarrow> 's \<Rightarrow> ('e, 'r) outcome \<times> 's" where
  "nonRealtimeAcquire mImpl_nonRealtimeAcquire s = mImpl_nonRealtimeAcquire s"

definition nonRealtimeRelease ::
    "('s \<Rightarrow> ('e, unit) outcome \<times> 's) \<Rightarrow> 's \<Rightarrow> ('e, unit) outcome \<times> 's" where
  "nonRealtimeRelease mImpl_nonRealtimeRelease s = mImpl_nonRealtimeRelease s"

definition nonRealtimeReplace ::
    "('args \<Rightarrow> 's \<Rightarrow> ('e, unit) outcome \<times> 's) \<Rightarrow> 'args \<Rightarrow> 's \<Rightarrow> ('e, unit) outcome \<times> 's" where
  "nonRealtimeReplace mImpl_nonRealtimeReplace args s = mImpl_nonRealtimeReplace args s"

subsection \<open>The special members of \<^verbatim>\<open>ScopedAccess\<close>\<close>

text \<open>
  The nested class template declares five members itself: the explicit constructor from
  the parent object, and the copy constructor, move constructor, copy assignment and move
  assignment, each \<^verbatim>\<open>= delete\<close>. The list does not depend on \<^verbatim>\<open>T\<close>, on the policy
  or on the thread type.
\<close>

datatype member = FromParent | CopyConstructor | MoveConstructor | CopyAssignment | MoveAssignment

datatype definition_kind = UserProvided | Deleted

definition ScopedAccess_members ::
    "RealtimeObjectOptions \<Rightarrow> ThreadType \<Rightarrow> (member \<times> definition_kind) list" where
  "ScopedAccess_members Options threadType =
     [(FromParent, UserProvided),
      (CopyConstructor, Deleted),
      (MoveConstructor, Deleted),
      (CopyAssignment, Deleted),
      (MoveAssignment, Deleted)]"

text \<open>
  What a program can try with a guard. Overload resolution takes the best declared
  candidate, deleted or not: an rvalue prefers the move member and falls back to the copy
  member only when no move member is declared. Choosing a deleted function is ill-formed.
\<close>

datatype guard_use = Construct | Copy | Move | AssignCopy | AssignMove

fun candidates :: "guard_use \<Rightarrow> member list" where
  "candidates Construct = [FromParent]"
| "candidates Copy = [CopyConstructor]"
| "candidates Move = [MoveConstructor, CopyConstructor]"
| "candidates AssignCopy = [CopyAssignment]"
| "candidates AssignMove = [MoveAssignment, CopyAssignment]"

fun resolve :: "(member \<times> definition_kind) list \<Rightarrow> member list \<Rightarrow> definition_kind option" where
  "resolve decls [] = None"
| "resolve decls (m # ms) =
     (case map_of decls m of Some k \<Rightarrow> Some k | None \<Rightarrow> resolve decls ms)"

definition guard_use_compiles :: "RealtimeObjectOptions \<Rightarrow> ThreadType \<Rightarrow> guard_use \<Rightarrow> bool" where
  "guard_use_compiles Options threadType u =
     (resolve (ScopedAccess_members Options threadType) (candidates u) = Some UserProvided)"

section \<open>The slot pool behind \<^verbatim>\<open>mImpl\<close>\<close>

text \<open>
  The facade holds no slot and no tag: the pool is the business of the detail classes in
  \<^verbatim>\<open>detail/RealtimeObject.tcc\<close>. The pool below follows the specification's
  description of it (sections 3, 4.1, 4.2 and 7), one definition per operation described
  there, with the tag exactly as described: one of three values.
\<close>

subsection \<open>Slots and tags\<close>

text \<open>
  Modelled from the spec: the value slot and the pool, which
  \<^verbatim>\<open>detail/RealtimeObject.tcc\<close> would declare. "Value Slot: holds one constructed
  instance of T plus an atomic tag. Tag values: Free, Current, Reading(count)"; "Pool: an
  ordered, fixed-capacity collection of Value Slots".
\<close>

datatype slot_tag = Free | Current | Reading nat

record 'a slot =
  tag :: slot_tag
  val :: 'a

type_synonym 'a pool = "'a slot list"

datatype pool_failure = NoFreeSlot

datatype 'e raised = FromPool pool_failure | FromConstructor 'e

subsection \<open>Operations\<close>

text \<open>
  Modelled from the spec: \<^verbatim>\<open>findFreeSlot\<close>, absent from the sources. "scans slots for
  one tagged Free; returns its index or fails with NoFreeSlot". The scan runs from the
  first slot and carries the index of the slot it looks at.
\<close>

fun scan_free :: "nat \<Rightarrow> 'a pool \<Rightarrow> nat option" where
  "scan_free i [] = None"
| "scan_free i (s # ss) = (if tag s = Free then Some i else scan_free (Suc i) ss)"

definition findFreeSlot :: "'a pool \<Rightarrow> pool_failure + nat" where
  "findFreeSlot p = (case scan_free 0 p of None \<Rightarrow> Inl NoFreeSlot | Some i \<Rightarrow> Inr i)"

text \<open>
  Modelled from the spec: \<^verbatim>\<open>publish\<close>, absent from the sources. "atomically retags
  index as Current and demotes the previous Current slot to Free only if its reader count
  is zero, otherwise leaves it Reading". A slot tagged \<open>Current\<close> has no reader; a slot
  tagged \<open>Reading n\<close> keeps its tag.
\<close>

fun demote :: "'a slot \<Rightarrow> 'a slot" where
  "demote s = (case tag s of Current \<Rightarrow> s\<lparr>tag := Free\<rparr> | _ \<Rightarrow> s)"

definition publish :: "nat \<Rightarrow> 'a pool \<Rightarrow> 'a pool" where
  "publish index p = (map demote p)[index := (p ! index)\<lparr>tag := Current\<rparr>]"

text \<open>
  Modelled from the spec: the replace of the detail classes, absent from the sources.
  "constructs a new T from args into a slot obtained from findFreeSlot(), then publishes
  it"; "Constructor failure of T during replace propagates directly to the caller of
  replace". The constructor of \<^verbatim>\<open>T\<close> is a parameter: it yields the new value or the
  exception it throws. The pool a failed call leaves behind is returned with the failure.
\<close>

definition replace ::
    "('args \<Rightarrow> 'e + 'a) \<Rightarrow> 'args \<Rightarrow> 'a pool \<Rightarrow> ('e raised, unit) outcome \<times> 'a pool" where
  "replace construct args p =
     (case findFreeSlot p of
        Inl failure \<Rightarrow> (Throws (FromPool failure), p)
      | Inr i \<Rightarrow>
          (case construct args of
             Inl e \<Rightarrow> (Throws (FromConstructor e), p)
           | Inr v \<Rightarrow> (Returns (), publish i (p[i := (p ! i)\<lparr>val := v\<rparr>]))))"

text \<open>
  Modelled from the spec: the sizing invariant, which no source file states. "capacity
  sized so the designated side always has a Free slot while at most one prior Current slot
  drains": the capacity exceeds the number of slots in use (the slot that holds the live
  value and the prior one that still drains its readers), so a slot is left over for the
  one replace in flight.
\<close>

definition slots_in_use :: "'a pool \<Rightarrow> nat" where
  "slots_in_use p = length (filter (\<lambda>s. tag s \<noteq> Free) p)"

definition sizing_invariant :: "'a pool \<Rightarrow> bool" where
  "sizing_invariant p = (slots_in_use p < length p)"

section \<open>The scoped guard\<close>

text \<open>
  The facade's \<^verbatim>\<open>ScopedAccess<threadType>\<close> derives from
  \<^verbatim>\<open>Impl::ScopedAccess<threadType == ThreadType::realtime>\<close> and its constructor passes
  \<^verbatim>\<open>parent.mImpl\<close> on to that base; it declares no destructor, so destroying it runs the
  destructor of the base. The calls a guard makes on the object are recorded in order.
\<close>

datatype call = AcquireCall ThreadType | Access | ReleaseCall ThreadType

text \<open>
  Modelled from the spec: the base guard \<^verbatim>\<open>ScopedAccess<isRealtimeThread>\<close> of the
  detail classes, absent from the sources. "on construction it calls that side's acquire;
  on destruction (every exit path, including early return or exception unwind) it calls
  the matching release exactly once".
\<close>

definition detail_ScopedAccess_constructor :: "bool \<Rightarrow> call list" where
  "detail_ScopedAccess_constructor isRealtimeThread =
     [AcquireCall (if isRealtimeThread then realtime else nonRealtime)]"

definition detail_ScopedAccess_destructor :: "bool \<Rightarrow> call list" where
  "detail_ScopedAccess_destructor isRealtimeThread =
     [ReleaseCall (if isRealtimeThread then realtime else nonRealtime)]"

definition ScopedAccess_constructor :: "ThreadType \<Rightarrow> call list" where
  "ScopedAccess_constructor threadType = detail_ScopedAccess_constructor (threadType = realtime)"

definition ScopedAccess_destructor :: "ThreadType \<Rightarrow> call list" where
  "ScopedAccess_destructor threadType = detail_ScopedAccess_destructor (threadType = realtime)"

text \<open>
  Modelled from the spec: the lifetime of a guard in the block that declares it ("every
  exit path, including early return or exception unwind").
  A block declares a guard and then runs statements: a statement reads or writes the
  held value through the guard, returns from the block, or throws. The block is left at
  its end, by the first return, or by the first exception. A guard whose constructor has
  completed is destroyed when the block is left, whichever way; when the acquire in the
  constructor throws instead, no guard exists and no destructor runs.
\<close>

datatype stmt = UseValue | ReturnEarly | ThrowException

datatype exit_path = EndOfBlock | EarlyReturn | ExceptionUnwind

fun run_body :: "stmt list \<Rightarrow> call list \<times> exit_path" where
  "run_body [] = ([], EndOfBlock)"
| "run_body (UseValue # ss) = (Access # fst (run_body ss), snd (run_body ss))"
| "run_body (ReturnEarly # ss) = ([], EarlyReturn)"
| "run_body (ThrowException # ss) = ([], ExceptionUnwind)"

definition guarded_block :: "ThreadType \<Rightarrow> bool \<Rightarrow> stmt list \<Rightarrow> call list \<times> exit_path" where
  "guarded_block threadType acquire_returns body =
     (if acquire_returns
      then (ScopedAccess_constructor threadType @ fst (run_body body)
              @ ScopedAccess_destructor threadType,
            snd (run_body body))
      else (ScopedAccess_constructor threadType, ExceptionUnwind))"

section \<open>Properties of the facade\<close>

subsection \<open>Const qualification of the acquired reference\<close>

text \<open>
  Claim C3, as the code has it. For every type \<open>T\<close>: under \<open>realtimeMutatable\<close>,
  \<open>realtimeAcquire\<close> returns a reference to \<open>T\<close> itself and \<open>nonRealtimeAcquire\<close> a
  reference to \<open>const T\<close>; under \<open>nonRealtimeMutatable\<close>, \<open>realtimeAcquire\<close> returns a
  reference to \<open>const T\<close> and \<open>nonRealtimeAcquire\<close> a reference to \<open>T\<close> itself. The
  acquire of the side that is not the mutator never permits in-place mutation; the acquire
  of the mutator's side (the side whose replace member the policy lets exist) permits it
  exactly when \<open>T\<close> is not const-qualified itself.
\<close>

theorem acquire_return_types:
  "RealtimeAcquireReturnType realtimeMutatable T = T
   \<and> NonRealtimeAcquireReturnType realtimeMutatable T = add_const T
   \<and> RealtimeAcquireReturnType nonRealtimeMutatable T = add_const T
   \<and> NonRealtimeAcquireReturnType nonRealtimeMutatable T = T
   \<and> permits_mutation (acquire_referent realtimeMutatable realtime T) = (\<not> is_const T)
   \<and> \<not> permits_mutation (acquire_referent realtimeMutatable nonRealtime T)
   \<and> permits_mutation (acquire_referent nonRealtimeMutatable nonRealtime T) = (\<not> is_const T)
   \<and> \<not> permits_mutation (acquire_referent nonRealtimeMutatable realtime T)
   \<and> permits_mutation (acquire_referent Options side T)
       = (replace_return_type Options side None = Some Void \<and> \<not> is_const T)"
proof -
  have aliases:
    "RealtimeAcquireReturnType realtimeMutatable T = T"
    "NonRealtimeAcquireReturnType realtimeMutatable T = add_const T"
    "RealtimeAcquireReturnType nonRealtimeMutatable T = add_const T"
    "NonRealtimeAcquireReturnType nonRealtimeMutatable T = T"
    by (simp_all add: RealtimeAcquireReturnType_def NonRealtimeAcquireReturnType_def
          conditional_t_def)
  have const: "\<not> permits_mutation (add_const T)"
    by (simp add: permits_mutation_def add_const_def)
  have sides:
    "permits_mutation (acquire_referent realtimeMutatable realtime T) = (\<not> is_const T)"
    "\<not> permits_mutation (acquire_referent realtimeMutatable nonRealtime T)"
    "permits_mutation (acquire_referent nonRealtimeMutatable nonRealtime T) = (\<not> is_const T)"
    "\<not> permits_mutation (acquire_referent nonRealtimeMutatable realtime T)"
    by (simp_all add: aliases const) (simp_all add: permits_mutation_def)
  have "permits_mutation (acquire_referent Options side T)
       = (replace_return_type Options side None = Some Void \<and> \<not> is_const T)"
    by (cases Options; cases side)
       (simp_all add: aliases const realtimeReplace_return_type_def
          nonRealtimeReplace_return_type_def enable_if_t_def, simp_all add: permits_mutation_def)
  with aliases sides show ?thesis
    by simp
qed

text \<open>
  The claim as first stated has the mutator's acquire return a mutable reference for every
  \<open>T\<close>. For \<open>T = const int\<close> the alias of the mutator's side is \<open>const int\<close> itself, and
  the reference permits no mutation.
\<close>

theorem const_T_is_not_mutable:
  "RealtimeAcquireReturnType realtimeMutatable (CppType True ''int'') = CppType True ''int''
   \<and> \<not> permits_mutation (acquire_referent realtimeMutatable realtime (CppType True ''int''))
   \<and> NonRealtimeAcquireReturnType nonRealtimeMutatable (CppType True ''int'')
       = CppType True ''int''
   \<and> \<not> permits_mutation (acquire_referent nonRealtimeMutatable nonRealtime (CppType True ''int''))"
  by (simp add: RealtimeAcquireReturnType_def NonRealtimeAcquireReturnType_def
        conditional_t_def permits_mutation_def)

subsection \<open>Replace exists for the mutator's template argument only\<close>

lemma realtimeReplace_call_WellFormed:
  "(realtimeReplace_call declares Options explicit_O = WellFormed)
     = (template_argument Options explicit_O = realtimeMutatable
        \<and> declares (Impl Options) realtime)"
  by (simp add: realtimeReplace_call_def realtimeReplace_return_type_def enable_if_t_def)

lemma nonRealtimeReplace_call_WellFormed:
  "(nonRealtimeReplace_call declares Options explicit_O = WellFormed)
     = (template_argument Options explicit_O = nonRealtimeMutatable
        \<and> declares (Impl Options) nonRealtime)"
  by (simp add: nonRealtimeReplace_call_def nonRealtimeReplace_return_type_def enable_if_t_def)

text \<open>
  Claim C4, as the code has it. \<open>realtimeReplace\<close> exists only when its template argument
  \<open>O\<close> is \<open>realtimeMutatable\<close> and \<open>nonRealtimeReplace\<close> only when \<open>O\<close> is
  \<open>nonRealtimeMutatable\<close>. \<open>O\<close> defaults to the configured policy: a call that leaves
  \<open>O\<close> to its default exists only on the side that is the mutator of the policy, and on
  the other side it has no matching function, whatever the detail classes declare: it is
  refused when the program is translated and is never part of a program that runs. A call
  that names \<open>O\<close> itself meets the condition under either policy; it is well-formed only
  if the detail class of the configured policy declares the member, so it too is refused
  at translation when the detail class of the other policy declares no such member.
\<close>

theorem replace_only_on_mutator_side:
  "(realtimeReplace_return_type Options explicit_O = Some Void)
     = (template_argument Options explicit_O = realtimeMutatable)
   \<and> (nonRealtimeReplace_return_type Options explicit_O = Some Void)
     = (template_argument Options explicit_O = nonRealtimeMutatable)
   \<and> realtimeReplace_return_type Options None
     = (if Options = realtimeMutatable then Some Void else None)
   \<and> nonRealtimeReplace_return_type Options None
     = (if Options = nonRealtimeMutatable then Some Void else None)
   \<and> realtimeReplace_call declares nonRealtimeMutatable None = NoMatchingFunction
   \<and> nonRealtimeReplace_call declares realtimeMutatable None = NoMatchingFunction
   \<and> (realtimeReplace_call declares Options explicit_O = WellFormed)
       = (template_argument Options explicit_O = realtimeMutatable
          \<and> declares (Impl Options) realtime)
   \<and> (nonRealtimeReplace_call declares Options explicit_O = WellFormed)
       = (template_argument Options explicit_O = nonRealtimeMutatable
          \<and> declares (Impl Options) nonRealtime)
   \<and> (\<not> declares NonRealtimeMutatable realtime
        \<longrightarrow> realtimeReplace_call declares nonRealtimeMutatable explicit_O \<noteq> WellFormed)
   \<and> (\<not> declares RealtimeMutatable nonRealtime
        \<longrightarrow> nonRealtimeReplace_call declares realtimeMutatable explicit_O \<noteq> WellFormed)"
proof -
  have exist:
    "(realtimeReplace_return_type Options explicit_O = Some Void)
       = (template_argument Options explicit_O = realtimeMutatable)"
    "(nonRealtimeReplace_return_type Options explicit_O = Some Void)
       = (template_argument Options explicit_O = nonRealtimeMutatable)"
    by (simp_all add: realtimeReplace_return_type_def nonRealtimeReplace_return_type_def
          enable_if_t_def)
  have types:
    "realtimeReplace_return_type Options None
       = (if Options = realtimeMutatable then Some Void else None)"
    "nonRealtimeReplace_return_type Options None
       = (if Options = nonRealtimeMutatable then Some Void else None)"
    by (simp_all add: realtimeReplace_return_type_def nonRealtimeReplace_return_type_def
          enable_if_t_def)
  have closed:
    "realtimeReplace_call declares nonRealtimeMutatable None = NoMatchingFunction"
    "nonRealtimeReplace_call declares realtimeMutatable None = NoMatchingFunction"
    by (simp_all add: realtimeReplace_call_def nonRealtimeReplace_call_def
          realtimeReplace_return_type_def nonRealtimeReplace_return_type_def enable_if_t_def)
  have rt: "\<not> declares NonRealtimeMutatable realtime
        \<longrightarrow> realtimeReplace_call declares nonRealtimeMutatable explicit_O \<noteq> WellFormed"
    by (simp add: realtimeReplace_call_WellFormed Impl_def conditional_t_def)
  have nrt: "\<not> declares RealtimeMutatable nonRealtime
        \<longrightarrow> nonRealtimeReplace_call declares realtimeMutatable explicit_O \<noteq> WellFormed"
    by (simp add: nonRealtimeReplace_call_WellFormed Impl_def conditional_t_def)
  from exist types closed rt nrt
  show ?thesis
    by (simp only: realtimeReplace_call_WellFormed nonRealtimeReplace_call_WellFormed
          simp_thms)
qed

text \<open>
  An instance: the detail classes declare their replace members as the specification says,
  the policy is \<open>nonRealtimeMutatable\<close>, and the call names
  \<open>O = realtimeMutatable\<close> itself. The member exists for that argument, and the call is
  refused for want of the member in \<open>Impl\<close>.
\<close>

theorem replace_only_on_mutator_side_witness:
  "\<not> declares_replace NonRealtimeMutatable realtime
   \<and> \<not> declares_replace RealtimeMutatable nonRealtime
   \<and> realtimeReplace_return_type nonRealtimeMutatable (Some realtimeMutatable) = Some Void
   \<and> realtimeReplace_call declares_replace nonRealtimeMutatable (Some realtimeMutatable)
       \<noteq> WellFormed
   \<and> nonRealtimeReplace_call declares_replace nonRealtimeMutatable (Some realtimeMutatable)
       \<noteq> WellFormed
   \<and> nonRealtimeReplace_call declares_replace nonRealtimeMutatable None = WellFormed"
  using replace_only_on_mutator_side
    [where declares = declares_replace and Options = nonRealtimeMutatable
       and explicit_O = "Some realtimeMutatable"]
    replace_only_on_mutator_side
    [where declares = declares_replace and Options = nonRealtimeMutatable
       and explicit_O = None]
  by (simp add: Impl_def conditional_t_def)

text \<open>
  The claim as first stated has each replace member exist only under its own policy. Named
  with the other policy's value as template argument, each exists under the other policy
  as well.
\<close>

theorem replace_exists_for_named_argument:
  "realtimeReplace_return_type nonRealtimeMutatable (Some realtimeMutatable) = Some Void
   \<and> nonRealtimeReplace_return_type realtimeMutatable (Some nonRealtimeMutatable) = Some Void"
  by (simp add: realtimeReplace_return_type_def nonRealtimeReplace_return_type_def
        enable_if_t_def)

text \<open>
  With the members the detail classes declare according to the specification, a call is
  well-formed exactly on the mutator's side, and stays refused on the other side when it
  names the template argument itself: the body then finds no such member in \<open>Impl\<close>.
\<close>

lemma replace_call_with_declared_members:
  "(realtimeReplace_call declares_replace Options None = WellFormed)
     = (Options = realtimeMutatable)
   \<and> (nonRealtimeReplace_call declares_replace Options None = WellFormed)
     = (Options = nonRealtimeMutatable)
   \<and> realtimeReplace_call declares_replace nonRealtimeMutatable explicit_O \<noteq> WellFormed
   \<and> nonRealtimeReplace_call declares_replace realtimeMutatable explicit_O \<noteq> WellFormed
   \<and> realtimeReplace_call declares_replace nonRealtimeMutatable (Some realtimeMutatable)
       = NoMemberInImpl"
proof -
  have "(realtimeReplace_call declares_replace Options None = WellFormed)
          = (Options = realtimeMutatable)"
    and "(nonRealtimeReplace_call declares_replace Options None = WellFormed)
          = (Options = nonRealtimeMutatable)"
    by (cases Options,
        simp_all add: realtimeReplace_call_WellFormed nonRealtimeReplace_call_WellFormed
          Impl_def conditional_t_def)+
  moreover have "realtimeReplace_call declares_replace nonRealtimeMutatable explicit_O \<noteq> WellFormed"
    and "nonRealtimeReplace_call declares_replace realtimeMutatable explicit_O \<noteq> WellFormed"
    by (simp_all add: realtimeReplace_call_WellFormed nonRealtimeReplace_call_WellFormed
          Impl_def conditional_t_def)
  moreover have "realtimeReplace_call declares_replace nonRealtimeMutatable
        (Some realtimeMutatable) = NoMemberInImpl"
    by (simp add: realtimeReplace_call_def realtimeReplace_return_type_def enable_if_t_def
          Impl_def conditional_t_def)
  ultimately show ?thesis
    by simp
qed

subsection \<open>The guard is neither copied nor moved\<close>

text \<open>
  Claim C8. For every \<open>T\<close>, policy and thread type, the guard \<open>ScopedAccess\<close> is
  non-copyable and non-movable: its copy constructor, move constructor, copy assignment
  and move assignment are all deleted, so no copy, move or assignment of a guard compiles;
  constructing one from its parent object does.
\<close>

theorem ScopedAccess_neither_copied_nor_moved:
  "map_of (ScopedAccess_members Options threadType) CopyConstructor = Some Deleted
   \<and> map_of (ScopedAccess_members Options threadType) MoveConstructor = Some Deleted
   \<and> map_of (ScopedAccess_members Options threadType) CopyAssignment = Some Deleted
   \<and> map_of (ScopedAccess_members Options threadType) MoveAssignment = Some Deleted
   \<and> \<not> guard_use_compiles Options threadType Copy
   \<and> \<not> guard_use_compiles Options threadType Move
   \<and> \<not> guard_use_compiles Options threadType AssignCopy
   \<and> \<not> guard_use_compiles Options threadType AssignMove
   \<and> guard_use_compiles Options threadType Construct"
  by (simp add: ScopedAccess_members_def guard_use_compiles_def)

subsection \<open>Exception specifications\<close>

lemma noexcept_never_throws: "fst (noexcept x) \<noteq> Throws e"
  by (cases x rule: noexcept.cases) simp_all

lemma noexcept_of_throw: "fst x = Throws e \<Longrightarrow> fst (noexcept x) = Terminates"
  by (cases x) simp

text \<open>
  Claim C10. For every \<open>T\<close> and policy (every member of \<open>mImpl\<close> forwarded to), the
  realtime-side operations \<open>realtimeAcquire\<close>, \<open>realtimeRelease\<close> and \<open>realtimeReplace\<close>
  are \<open>noexcept\<close>: they never hand an exception to their caller, and an exception of the
  forwarded member ends the program instead. The non-realtime-side operations
  \<open>nonRealtimeAcquire\<close>, \<open>nonRealtimeRelease\<close> and \<open>nonRealtimeReplace\<close> are not: an
  exception of the forwarded member reaches their caller as it is.
\<close>

theorem exception_specifications:
  "fst (realtimeAcquire acq s) \<noteq> Throws e
   \<and> fst (realtimeRelease rel s) \<noteq> Throws e
   \<and> fst (realtimeReplace rep args s) \<noteq> Throws e
   \<and> (fst (acq s) = Throws e \<longrightarrow> fst (realtimeAcquire acq s) = Terminates)
   \<and> (fst (rel s) = Throws e \<longrightarrow> fst (realtimeRelease rel s) = Terminates)
   \<and> (fst (rep args s) = Throws e \<longrightarrow> fst (realtimeReplace rep args s) = Terminates)
   \<and> (fst (acq s) = Throws e \<longrightarrow> fst (nonRealtimeAcquire acq s) = Throws e)
   \<and> (fst (rel s) = Throws e \<longrightarrow> fst (nonRealtimeRelease rel s) = Throws e)
   \<and> (fst (rep args s) = Throws e \<longrightarrow> fst (nonRealtimeReplace rep args s) = Throws e)"
proof -
  have never:
    "fst (realtimeAcquire acq s) \<noteq> Throws e"
    "fst (realtimeRelease rel s) \<noteq> Throws e"
    "fst (realtimeReplace rep args s) \<noteq> Throws e"
    unfolding realtimeAcquire_def realtimeRelease_def realtimeReplace_def
    by (rule noexcept_never_throws)+
  have ends:
    "fst (acq s) = Throws e \<longrightarrow> fst (realtimeAcquire acq s) = Terminates"
    "fst (rel s) = Throws e \<longrightarrow> fst (realtimeRelease rel s) = Terminates"
    "fst (rep args s) = Throws e \<longrightarrow> fst (realtimeReplace rep args s) = Terminates"
    unfolding realtimeAcquire_def realtimeRelease_def realtimeReplace_def
    by (blast intro: noexcept_of_throw)+
  have passes:
    "fst (acq s) = Throws e \<longrightarrow> fst (nonRealtimeAcquire acq s) = Throws e"
    "fst (rel s) = Throws e \<longrightarrow> fst (nonRealtimeRelease rel s) = Throws e"
    "fst (rep args s) = Throws e \<longrightarrow> fst (nonRealtimeReplace rep args s) = Throws e"
    unfolding nonRealtimeAcquire_def nonRealtimeRelease_def nonRealtimeReplace_def
    by (rule impI, assumption)+
  from never ends passes show ?thesis by blast
qed

text \<open>
  An instance: every forwarded member throws (a lock that cannot be taken, a constructor
  that rejects its argument). The realtime side ends the program, the non-realtime side
  shows the exception to its caller.
\<close>

theorem exception_specifications_witness:
  "fst (realtimeAcquire (\<lambda>s. (Throws ''system_error'', s)) (0::nat))
     = (Terminates :: (string, int) outcome)
   \<and> fst (realtimeRelease (\<lambda>s. (Throws ''system_error'', s)) (0::nat)) = Terminates
   \<and> fst (realtimeReplace (\<lambda>a s. (Throws ''system_error'', s)) (5::int) (0::nat)) = Terminates
   \<and> fst (nonRealtimeAcquire (\<lambda>s. (Throws ''system_error'', s)) (0::nat))
     = (Throws ''system_error'' :: (string, int) outcome)
   \<and> fst (nonRealtimeRelease (\<lambda>s. (Throws ''system_error'', s)) (0::nat))
     = Throws ''system_error''
   \<and> fst (nonRealtimeReplace (\<lambda>a s. (Throws ''system_error'', s)) (5::int) (0::nat))
     = Throws ''system_error''"
  using exception_specifications
    [where acq = "\<lambda>s. (Throws ''system_error'' :: (string, int) outcome, s)"
       and rel = "\<lambda>s. (Throws ''system_error'', s)"
       and rep = "\<lambda>a s. (Throws ''system_error'', s)"
       and s = "0::nat" and args = "5::int" and e = "''system_error''"]
  by simp

section \<open>Properties of the slot pool\<close>

subsection \<open>The scan for a free slot\<close>

lemma scan_free_Some:
  "scan_free k p = Some i \<Longrightarrow> k \<le> i \<and> i - k < length p \<and> tag (p ! (i - k)) = Free"
proof (induction p arbitrary: k)
  case Nil
  then show ?case by simp
next
  case (Cons s ss)
  show ?case
  proof (cases "tag s = Free")
    case True
    with Cons.prems show ?thesis by simp
  next
    case False
    with Cons.prems have "scan_free (Suc k) ss = Some i" by simp
    from Cons.IH [OF this]
    have "Suc k \<le> i" and "i - Suc k < length ss" and "tag (ss ! (i - Suc k)) = Free"
      by simp_all
    moreover from \<open>Suc k \<le> i\<close> have "i - k = Suc (i - Suc k)" by simp
    ultimately show ?thesis by simp
  qed
qed

lemma scan_free_None: "(scan_free k p = None) = (Free \<notin> set (map tag p))"
  by (induction p arbitrary: k) auto

lemma free_slot_left: "sizing_invariant p \<Longrightarrow> Free \<in> set (map tag p)"
proof (rule ccontr)
  assume inv: "sizing_invariant p" and none: "Free \<notin> set (map tag p)"
  from none have "filter (\<lambda>s. tag s \<noteq> Free) p = p"
    by (force simp: filter_id_conv)
  then have "slots_in_use p = length p"
    by (simp add: slots_in_use_def)
  with inv show False
    by (simp add: sizing_invariant_def)
qed

lemma findFreeSlot_Inr:
  "findFreeSlot p = Inr i \<Longrightarrow> i < length p \<and> tag (p ! i) = Free"
proof -
  assume "findFreeSlot p = Inr i"
  then have "scan_free 0 p = Some i"
    by (simp add: findFreeSlot_def split: option.splits)
  from scan_free_Some [OF this] show ?thesis
    by simp
qed

lemma sizing_invariant_three_slots:
  "slots_in_use p \<le> 2 \<Longrightarrow> 3 \<le> length p \<Longrightarrow> sizing_invariant p"
  by (simp add: sizing_invariant_def)

text \<open>
  Claim C9. \<open>findFreeSlot\<close> either returns the index of a slot tagged \<open>Free\<close> or fails
  with \<open>NoFreeSlot\<close> (and then no slot is tagged \<open>Free\<close>); under the sizing invariant
  the failure is unreachable: a caller gets an index.
\<close>

theorem findFreeSlot_finds_a_free_slot:
  "(findFreeSlot p = Inr i \<longrightarrow> i < length p \<and> tag (p ! i) = Free)
   \<and> (findFreeSlot p = Inl failure \<longrightarrow> failure = NoFreeSlot \<and> Free \<notin> set (map tag p))
   \<and> (sizing_invariant p \<longrightarrow> (\<exists>j. findFreeSlot p = Inr j))
   \<and> ((\<exists>j. findFreeSlot p = Inr j) \<or> findFreeSlot p = Inl NoFreeSlot)"
proof (intro conjI impI)
  assume "findFreeSlot p = Inr i"
  then show "i < length p" and "tag (p ! i) = Free"
    by (simp_all add: findFreeSlot_Inr)
next
  show "(\<exists>j. findFreeSlot p = Inr j) \<or> findFreeSlot p = Inl NoFreeSlot"
    by (simp add: findFreeSlot_def split: option.split)
next
  assume "findFreeSlot p = Inl failure"
  then have "scan_free 0 p = None"
    by (simp add: findFreeSlot_def split: option.splits)
  then show "Free \<notin> set (map tag p)"
    by (simp add: scan_free_None)
  show "failure = NoFreeSlot"
    by (cases failure) simp
next
  assume "sizing_invariant p"
  then have "Free \<in> set (map tag p)"
    by (rule free_slot_left)
  then have "scan_free 0 p \<noteq> None"
    by (simp add: scan_free_None)
  then show "\<exists>j. findFreeSlot p = Inr j"
    by (auto simp: findFreeSlot_def)
qed

text \<open>
  Two pools: three slots with the live value, a draining one and a free one (the invariant
  holds, the third slot is found); two slots, both in use (the scan fails).
\<close>

theorem findFreeSlot_finds_a_free_slot_witness:
  "findFreeSlot [\<lparr>tag = Current, val = 5::int\<rparr>, \<lparr>tag = Reading 1, val = 0\<rparr>,
                 \<lparr>tag = Free, val = 0\<rparr>] = Inr 2
   \<and> sizing_invariant [\<lparr>tag = Current, val = 5::int\<rparr>, \<lparr>tag = Reading 1, val = 0\<rparr>,
                 \<lparr>tag = Free, val = 0\<rparr>]
   \<and> tag ([\<lparr>tag = Current, val = 5::int\<rparr>, \<lparr>tag = Reading 1, val = 0\<rparr>,
                 \<lparr>tag = Free, val = 0\<rparr>] ! 2) = Free
   \<and> findFreeSlot [\<lparr>tag = Reading 1, val = 0::int\<rparr>, \<lparr>tag = Current, val = 5\<rparr>]
       = Inl NoFreeSlot
   \<and> Free \<notin> set (map tag [\<lparr>tag = Reading 1, val = 0::int\<rparr>, \<lparr>tag = Current, val = 5\<rparr>])"
proof -
  let ?p = "[\<lparr>tag = Current, val = 5::int\<rparr>, \<lparr>tag = Reading 1, val = 0\<rparr>,
             \<lparr>tag = Free, val = 0\<rparr>]"
  let ?q = "[\<lparr>tag = Reading 1, val = 0::int\<rparr>, \<lparr>tag = Current, val = 5\<rparr>]"
  have inv: "sizing_invariant ?p"
    by (simp add: sizing_invariant_def slots_in_use_def)
  have found: "findFreeSlot ?p = Inr 2"
    by (simp add: findFreeSlot_def)
  have full: "findFreeSlot ?q = Inl NoFreeSlot"
    by (simp add: findFreeSlot_def)
  from findFreeSlot_finds_a_free_slot [of ?p 2] found
  have "tag (?p ! 2) = Free" by blast
  moreover from findFreeSlot_finds_a_free_slot [of ?q _ NoFreeSlot] full
  have "Free \<notin> set (map tag ?q)" by blast
  ultimately show ?thesis using inv found full by blast
qed

subsection \<open>A constructor that fails during replace\<close>

lemma replace_failed_construction:
  "construct args = Inl e \<Longrightarrow> findFreeSlot p = Inr i \<Longrightarrow>
     replace construct args p = (Throws (FromConstructor e), p)"
  by (simp add: replace_def)

text \<open>What replace does when the constructor succeeds, and when the pool is full.\<close>

lemma replace_publishes:
  "replace Inr (7::int) [\<lparr>tag = Current, val = 5::int\<rparr>, \<lparr>tag = Free, val = 0\<rparr>]
     = (Returns () :: (string raised, unit) outcome,
        [\<lparr>tag = Free, val = 5\<rparr>, \<lparr>tag = Current, val = 7\<rparr>])
   \<and> replace Inr (7::int) [\<lparr>tag = Reading 2, val = 5::int\<rparr>, \<lparr>tag = Free, val = 0\<rparr>]
     = (Returns () :: (string raised, unit) outcome,
        [\<lparr>tag = Reading 2, val = 5\<rparr>, \<lparr>tag = Current, val = 7\<rparr>])
   \<and> replace Inr (7::int) [\<lparr>tag = Reading 2, val = 5::int\<rparr>, \<lparr>tag = Current, val = 0\<rparr>]
     = (Throws (FromPool NoFreeSlot) :: (string raised, unit) outcome,
        [\<lparr>tag = Reading 2, val = 5\<rparr>, \<lparr>tag = Current, val = 0\<rparr>])"
  by (simp add: replace_def findFreeSlot_def publish_def)

text \<open>
  Claim C5, as the code has it. For every argument list on which the constructor of \<open>T\<close>
  fails during a replace call, the target slot obtained from \<open>findFreeSlot\<close> is left
  tagged \<open>Free\<close> and no tag (indeed no slot) of the pool changes, so the value published
  before is still the current one. \<open>nonRealtimeReplace\<close> hands the failure to its caller.
  \<open>realtimeReplace\<close> is \<open>noexcept\<close>: it does not hand the failure to its caller, the
  program ends.
\<close>

theorem replace_constructor_failure:
  assumes failed: "construct args = Inl e" and target: "findFreeSlot p = Inr i"
  shows "replace construct args p = (Throws (FromConstructor e), p)
       \<and> tag (snd (replace construct args p) ! i) = Free
       \<and> map tag (snd (replace construct args p)) = map tag p
       \<and> nonRealtimeReplace (replace construct) args p = (Throws (FromConstructor e), p)
       \<and> realtimeReplace (replace construct) args p = (Terminates, p)"
proof -
  have r: "replace construct args p = (Throws (FromConstructor e), p)"
    using failed target by (rule replace_failed_construction)
  moreover from target have "tag (p ! i) = Free"
    by (simp add: findFreeSlot_Inr)
  moreover have "nonRealtimeReplace (replace construct) args p = (Throws (FromConstructor e), p)"
    by (simp add: nonRealtimeReplace_def r)
  moreover have "realtimeReplace (replace construct) args p = (Terminates, p)"
    by (simp add: realtimeReplace_def r)
  ultimately show ?thesis
    by simp
qed

text \<open>
  An instance: a pool of two slots whose second is free, and a constructor that rejects
  every argument.
\<close>

theorem replace_constructor_failure_witness:
  "(Inl ''invalid_argument'' :: string + int) = Inl ''invalid_argument''
   \<and> findFreeSlot [\<lparr>tag = Current, val = 5::int\<rparr>, \<lparr>tag = Free, val = 0\<rparr>] = Inr 1
   \<and> replace Inl ''invalid_argument'' [\<lparr>tag = Current, val = 5::int\<rparr>, \<lparr>tag = Free, val = 0\<rparr>]
       = (Throws (FromConstructor ''invalid_argument''),
          [\<lparr>tag = Current, val = 5\<rparr>, \<lparr>tag = Free, val = 0\<rparr>])
   \<and> nonRealtimeReplace (replace Inl) ''invalid_argument''
         [\<lparr>tag = Current, val = 5::int\<rparr>, \<lparr>tag = Free, val = 0\<rparr>]
       = (Throws (FromConstructor ''invalid_argument''),
          [\<lparr>tag = Current, val = 5\<rparr>, \<lparr>tag = Free, val = 0\<rparr>])
   \<and> realtimeReplace (replace Inl) ''invalid_argument''
         [\<lparr>tag = Current, val = 5::int\<rparr>, \<lparr>tag = Free, val = 0\<rparr>]
       = (Terminates, [\<lparr>tag = Current, val = 5\<rparr>, \<lparr>tag = Free, val = 0\<rparr>])"
proof -
  let ?p = "[\<lparr>tag = Current, val = 5::int\<rparr>, \<lparr>tag = Free, val = 0\<rparr>]"
  have target: "findFreeSlot ?p = Inr 1"
    by (simp add: findFreeSlot_def)
  have failed: "(Inl :: string \<Rightarrow> string + int) ''invalid_argument'' = Inl ''invalid_argument''"
    by simp
  from replace_constructor_failure
         [where construct = "Inl :: string \<Rightarrow> string + int" and args = "''invalid_argument''"
            and e = "''invalid_argument''" and p = ?p and i = 1, OF failed target]
       target
  show ?thesis
    by simp
qed

text \<open>
  The claim as first stated has the failure reach the caller of replace on either side. On
  the realtime side it does not: the replace of the pool throws, and \<open>realtimeReplace\<close>
  ends the program.
\<close>

theorem realtimeReplace_hides_constructor_failure:
  "fst (replace Inl ''invalid_argument'' [\<lparr>tag = Current, val = 5::int\<rparr>, \<lparr>tag = Free, val = 0\<rparr>])
     = Throws (FromConstructor ''invalid_argument'')
   \<and> fst (realtimeReplace (replace Inl) ''invalid_argument''
            [\<lparr>tag = Current, val = 5::int\<rparr>, \<lparr>tag = Free, val = 0\<rparr>])
     = Terminates
   \<and> fst (realtimeReplace (replace Inl) ''invalid_argument''
            [\<lparr>tag = Current, val = 5::int\<rparr>, \<lparr>tag = Free, val = 0\<rparr>])
     \<noteq> Throws (FromConstructor ''invalid_argument'')"
  by (simp add: realtimeReplace_def replace_def findFreeSlot_def)

section \<open>Properties of the scoped guard\<close>

lemma run_body_only_accesses: "filter (\<lambda>c. c \<noteq> Access) (fst (run_body body)) = []"
  by (induction body rule: run_body.induct) simp_all

lemma run_body_counts:
  "count_list (fst (run_body body)) (AcquireCall t) = 0
   \<and> count_list (fst (run_body body)) (ReleaseCall t) = 0"
  by (induction body rule: run_body.induct) simp_all

lemma ScopedAccess_constructor_call:
  "ScopedAccess_constructor threadType = [AcquireCall threadType]"
  by (cases threadType)
     (simp_all add: ScopedAccess_constructor_def detail_ScopedAccess_constructor_def)

lemma ScopedAccess_destructor_call:
  "ScopedAccess_destructor threadType = [ReleaseCall threadType]"
  by (cases threadType)
     (simp_all add: ScopedAccess_destructor_def detail_ScopedAccess_destructor_def)

text \<open>
  Claim C6. For every execution of a \<open>ScopedAccess\<close> guard of either side, whatever the
  block does and however it is left (at its end, by an early return, by an exception):
  construction calls that side's acquire exactly once, destruction calls that side's
  release exactly once, the acquire comes first and the release last, and the guard makes
  no other acquire or release call, of either side.
\<close>

theorem guard_acquires_once_releases_once:
  "count_list (fst (guarded_block threadType True body)) (AcquireCall threadType) = 1
   \<and> count_list (fst (guarded_block threadType True body)) (ReleaseCall threadType) = 1
   \<and> hd (fst (guarded_block threadType True body)) = AcquireCall threadType
   \<and> last (fst (guarded_block threadType True body)) = ReleaseCall threadType
   \<and> filter (\<lambda>c. c \<noteq> Access) (fst (guarded_block threadType True body))
       = [AcquireCall threadType, ReleaseCall threadType]"
proof -
  have trace: "fst (guarded_block threadType True body)
      = AcquireCall threadType # fst (run_body body) @ [ReleaseCall threadType]"
    by (simp add: guarded_block_def ScopedAccess_constructor_call ScopedAccess_destructor_call)
  have "count_list (fst (guarded_block threadType True body)) (AcquireCall threadType) = 1"
    and "count_list (fst (guarded_block threadType True body)) (ReleaseCall threadType) = 1"
    by (simp_all add: trace run_body_counts)
  moreover have "hd (fst (guarded_block threadType True body)) = AcquireCall threadType"
    and "last (fst (guarded_block threadType True body)) = ReleaseCall threadType"
    by (simp_all add: trace)
  moreover have "filter (\<lambda>c. c \<noteq> Access) (fst (guarded_block threadType True body))
       = [AcquireCall threadType, ReleaseCall threadType]"
    by (simp add: trace run_body_only_accesses)
  ultimately show ?thesis
    by simp
qed

text \<open>Each of the three exit paths is taken by some block.\<close>

lemma every_exit_path_is_taken:
  "snd (guarded_block threadType True [UseValue]) = EndOfBlock
   \<and> snd (guarded_block threadType True [UseValue, ReturnEarly, UseValue]) = EarlyReturn
   \<and> snd (guarded_block threadType True [ThrowException, UseValue]) = ExceptionUnwind"
  by (simp add: guarded_block_def)

text \<open>
  When the acquire in the constructor throws, no guard has come to exist: nothing is held
  and no release is called.
\<close>

lemma failed_acquire_runs_no_destructor:
  "guarded_block threadType False body = ([AcquireCall threadType], ExceptionUnwind)"
  by (simp add: guarded_block_def ScopedAccess_constructor_call)

end
